theory Spec2Isabelle
  imports Main
begin

section \<open>Data model (app/models.py, app/schemas.py)\<close>

datatype UserRole = USER | ADMIN

datatype ReadingStatus = PLAN_TO_READ | READING | COMPLETED | DROPPED

text \<open>
  The three tables. The primary key column \<open>id\<close> of each table is named \<open>uid\<close>,
  \<open>bid\<close> and \<open>sid\<close>; every other field keeps the column's name. Python's integers
  are \<open>int\<close>, nullable columns are options.
\<close>

record User =
  uid :: int
  username :: string
  email :: string
  hashed_password :: string
  role :: UserRole

record Book =
  bid :: int
  title :: string
  author :: string
  isbn :: "string option"
  description :: "string option"
  cover_url :: "string option"

record ShelfItem =
  sid :: int
  user_id :: int
  book_id :: int
  status :: ReadingStatus
  rating :: "int option"
  review :: "string option"

text \<open>The request bodies of schemas.py that the handlers below read.\<close>

record UserCreate =
  new_username :: string
  new_email :: string
  password :: string

record UserUpdate =
  upd_username :: "string option"
  upd_email :: "string option"
  upd_role :: "UserRole option"

record BookCreate =
  in_title :: string
  in_author :: string
  in_isbn :: "string option"
  in_description :: "string option"
  in_cover_url :: "string option"

record ShelfItemUpdate =
  upd_status :: "ReadingStatus option"
  upd_rating :: "int option"
  upd_review :: "string option"

text \<open>
  The database session: the rows of the three tables in storage order.
  \<open>select(...).where(p)\<close> followed by \<open>scalars().first()\<close> is \<^const>\<open>find\<close> on the rows.
\<close>

record db =
  users :: "User list"
  books :: "Book list"
  shelf_items :: "ShelfItem list"

text \<open>\<open>HTTPException(status_code, detail)\<close>; a handler's result is \<open>Inl\<close> of it when it raises.\<close>

datatype HTTPException = HTTPException nat string

fun status_code :: "HTTPException \<Rightarrow> nat" where
  "status_code (HTTPException c d) = c"

section \<open>JSON values and the Python operations applied to them\<close>

text \<open>
  What \<open>response.json()\<close> and \<open>jwt.decode\<close> return: Python values built from JSON.
  Numbers are integers here; a dict is an association list read with \<^const>\<open>map_of\<close>.
\<close>

datatype json =
    JNull
  | JBool bool
  | JNum int
  | JStr string
  | JArr "json list"
  | JObj "(string \<times> json) list"

datatype py_exception = AttributeError | TypeError | KeyError | IndexError

text \<open>Truth value of a Python object (\<open>if x:\<close>, \<open>not x\<close>, \<open>x or y\<close>).\<close>

fun truthy :: "json \<Rightarrow> bool" where
  "truthy JNull = False"
| "truthy (JBool b) = b"
| "truthy (JNum n) = (n \<noteq> 0)"
| "truthy (JStr s) = (s \<noteq> [])"
| "truthy (JArr xs) = (xs \<noteq> [])"
| "truthy (JObj kvs) = (kvs \<noteq> [])"

text \<open>\<open>d.get(k, default)\<close> on a dict.\<close>

definition dict_get :: "(string \<times> json) list \<Rightarrow> string \<Rightarrow> json \<Rightarrow> json" where
  "dict_get d k dflt = (case map_of d k of None \<Rightarrow> dflt | Some v \<Rightarrow> v)"

text \<open>\<open>x.get(k, default)\<close> on any value: only a dict has the method.\<close>

fun py_get :: "json \<Rightarrow> string \<Rightarrow> json \<Rightarrow> py_exception + json" where
  "py_get (JObj d) k dflt = Inr (dict_get d k dflt)"
| "py_get _ k dflt = Inl AttributeError"

text \<open>\<open>len(x)\<close>: defined on strings, lists and dicts.\<close>

fun py_len :: "json \<Rightarrow> py_exception + nat" where
  "py_len (JStr s) = Inr (length s)"
| "py_len (JArr xs) = Inr (length xs)"
| "py_len (JObj kvs) = Inr (length kvs)"
| "py_len _ = Inl TypeError"

text \<open>
  \<open>x[0]\<close>: the first element of a list, the first character of a string (as a string);
  a dict parsed from JSON has string keys only, so the key \<open>0\<close> is missing.
\<close>

fun py_index0 :: "json \<Rightarrow> py_exception + json" where
  "py_index0 (JArr []) = Inl IndexError"
| "py_index0 (JArr (x # xs)) = Inr x"
| "py_index0 (JStr []) = Inl IndexError"
| "py_index0 (JStr (c # cs)) = Inr (JStr [c])"
| "py_index0 (JObj kvs) = Inl KeyError"
| "py_index0 _ = Inl TypeError"

text \<open>
  \<open>str.strip()\<close>: drops leading and trailing whitespace (the characters Python's
  \<open>str.isspace\<close> accepts below code point 256).
\<close>

definition is_space :: "char \<Rightarrow> bool" where
  "is_space c =
     (let n = (of_char c :: nat)
      in (9 \<le> n \<and> n \<le> 13) \<or> (28 \<le> n \<and> n \<le> 32) \<or> n = 133 \<or> n = 160)"

definition strip :: "string \<Rightarrow> string" where
  "strip s = rev (dropWhile is_space (rev (dropWhile is_space s)))"

section \<open>External collaborators\<close>

text \<open>
  What \<open>httpx.AsyncClient.get\<close> does: it raises \<open>httpx.TimeoutException\<close>, another
  \<open>httpx.RequestError\<close>, or some other exception, or it returns a response with a status
  code and a body; the body is \<open>None\<close> when \<open>response.json()\<close> raises on it.
\<close>

datatype http_result =
    TimeoutException
  | RequestError
  | OtherException
  | Response nat "json option"

text \<open>
  The library functions and the network, taken as parameters:
  \<^item> \<open>jwt_decode\<close>: \<open>jwt.decode(token, SECRET_KEY, algorithms=[ALGORITHM])\<close>; \<open>None\<close> when
    it raises \<open>JWTError\<close> (bad signature, malformed token, expired token);
  \<^item> \<open>py_int\<close>: \<open>int(x)\<close>; \<open>None\<close> when it raises \<open>ValueError\<close> or \<open>TypeError\<close>;
  \<^item> \<open>py_str\<close>: \<open>str(x)\<close> of a value that is not a string;
  \<^item> \<open>get_password_hash\<close>: \<open>security.get_password_hash\<close>;
  \<^item> \<open>http_get\<close>: the answer of the network to a GET of a URL under a timeout in seconds;
  \<^item> \<open>bind_text\<close>: what the storage driver writes into a text column for a Python value
    that is neither a string nor \<open>None\<close>; \<open>None\<close> when it raises.
\<close>

record env =
  jwt_decode :: "string \<Rightarrow> (string \<times> json) list option"
  py_int :: "json \<Rightarrow> int option"
  py_str :: "json \<Rightarrow> string"
  get_password_hash :: "string \<Rightarrow> string"
  http_get :: "string \<Rightarrow> nat \<Rightarrow> http_result"
  bind_text :: "json \<Rightarrow> string option"

text \<open>An interpolation \<open>{x}\<close> in an f-string: the string itself, \<open>str(x)\<close> otherwise.\<close>

definition format :: "env \<Rightarrow> json \<Rightarrow> string" where
  "format e v = (case v of JStr s \<Rightarrow> s | _ \<Rightarrow> py_str e v)"

section \<open>Authentication (app/dependencies.py)\<close>

text \<open>
  \<open>OAuth2PasswordBearer\<close>: the bearer token of the Authorization header, or 401 when the
  request carries none.
\<close>

definition oauth2_scheme :: "string option \<Rightarrow> HTTPException + string" where
  "oauth2_scheme authorization =
     (case authorization of
        None \<Rightarrow> Inl (HTTPException 401 ''Not authenticated'')
      | Some token \<Rightarrow> Inr token)"

definition credentials_exception :: HTTPException where
  "credentials_exception = HTTPException 401 ''Could not validate credentials''"

definition get_current_user :: "env \<Rightarrow> string \<Rightarrow> db \<Rightarrow> HTTPException + User" where
  "get_current_user e token d =
     (case jwt_decode e token of
        None \<Rightarrow> Inl credentials_exception
      | Some payload \<Rightarrow>
          (let sub = dict_get payload ''sub'' JNull in
           if sub = JNull then Inl credentials_exception
           else
             (case py_int e sub of
                None \<Rightarrow> Inl credentials_exception
              | Some user_id_int \<Rightarrow>
                  (case find (\<lambda>u. uid u = user_id_int) (users d) of
                     None \<Rightarrow> Inl credentials_exception
                   | Some user \<Rightarrow> Inr user))))"

section \<open>Users (app/routers/users.py)\<close>

definition get_user :: "int \<Rightarrow> db \<Rightarrow> User \<Rightarrow> HTTPException + User" where
  "get_user target d current_user =
     (if role current_user \<noteq> ADMIN \<and> uid current_user \<noteq> target
      then Inl (HTTPException 403 ''Not authorized'')
      else
        (case find (\<lambda>u. uid u = target) (users d) of
           None \<Rightarrow> Inl (HTTPException 404 ''User not found'')
         | Some user \<Rightarrow> Inr user))"

text \<open>
  The commit of a changed row: the UPDATE rewrites the rows with the primary key.
\<close>

definition store_user :: "User \<Rightarrow> db \<Rightarrow> db" where
  "store_user u d = d\<lparr>users := map (\<lambda>x. if uid x = uid u then u else x) (users d)\<rparr>"

definition update_user ::
  "int \<Rightarrow> UserUpdate \<Rightarrow> db \<Rightarrow> User \<Rightarrow> (HTTPException + User) \<times> db" where
  "update_user target user_update d current_user =
     (if role current_user \<noteq> ADMIN \<and> uid current_user \<noteq> target
      then (Inl (HTTPException 403 ''Not authorized''), d)
      else
        (case find (\<lambda>u. uid u = target) (users d) of
           None \<Rightarrow> (Inl (HTTPException 404 ''User not found''), d)
         | Some db_user \<Rightarrow>
             (case
                (case upd_username user_update of
                   None \<Rightarrow> Inr db_user
                 | Some n \<Rightarrow>
                     (case find (\<lambda>u. username u = n \<and> uid u \<noteq> target) (users d) of
                        Some other \<Rightarrow> Inl (HTTPException 400 ''Username already taken'')
                      | None \<Rightarrow> Inr (db_user\<lparr>username := n\<rparr>)))
              of
                Inl ex \<Rightarrow> (Inl ex, d)
              | Inr db_user1 \<Rightarrow>
                  (case
                     (case upd_email user_update of
                        None \<Rightarrow> Inr db_user1
                      | Some m \<Rightarrow>
                          (case find (\<lambda>u. email u = m \<and> uid u \<noteq> target) (users d) of
                             Some other \<Rightarrow> Inl (HTTPException 400 ''Email already taken'')
                           | None \<Rightarrow> Inr (db_user1\<lparr>email := m\<rparr>)))
                   of
                     Inl ex \<Rightarrow> (Inl ex, d)
                   | Inr db_user2 \<Rightarrow>
                       (let db_user3 =
                          (case upd_role user_update of
                             None \<Rightarrow> db_user2
                           | Some r \<Rightarrow>
                               if role current_user = ADMIN then db_user2\<lparr>role := r\<rparr>
                               else db_user2)
                        in (Inr db_user3, store_user db_user3 d))))))"

definition delete_user :: "int \<Rightarrow> db \<Rightarrow> User \<Rightarrow> (HTTPException + unit) \<times> db" where
  "delete_user target d current_user =
     (if role current_user \<noteq> ADMIN
      then (Inl (HTTPException 403 ''Only administrators can delete users''), d)
      else if uid current_user = target
      then (Inl (HTTPException 400 ''Cannot delete your own account''), d)
      else
        (case find (\<lambda>u. uid u = target) (users d) of
           None \<Rightarrow> (Inl (HTTPException 404 ''User not found''), d)
         | Some db_user \<Rightarrow>
             (Inr (),
              d\<lparr>shelf_items := filter (\<lambda>i. user_id i \<noteq> target) (shelf_items d),
                users := filter (\<lambda>u. uid u \<noteq> target) (users d)\<rparr>)))"

section \<open>Registration (app/routers/auth.py)\<close>

text \<open>The key a table gives a new row.\<close>

definition next_id :: "int list \<Rightarrow> int" where
  "next_id ids = fold max ids 0 + 1"

text \<open>
  An exception no handler catches leaves the application as the framework's plain
  500 response.
\<close>

definition internal_server_error :: HTTPException where
  "internal_server_error = HTTPException 500 ''Internal Server Error''"

text \<open>
  \<open>db.add(new_user); await db.commit()\<close>: the columns \<open>username\<close> and \<open>email\<close> of
  models.User are declared \<open>unique=True\<close>, so the INSERT raises \<open>IntegrityError\<close>
  (\<open>None\<close>) when a row holds either value already.
\<close>

definition insert_user :: "User \<Rightarrow> db \<Rightarrow> db option" where
  "insert_user u d =
     (if find (\<lambda>x. username x = username u) (users d) = None
         \<and> find (\<lambda>x. email x = email u) (users d) = None
      then Some (d\<lparr>users := users d @ [u]\<rparr>)
      else None)"

definition register :: "env \<Rightarrow> UserCreate \<Rightarrow> db \<Rightarrow> (HTTPException + User) \<times> db" where
  "register e user d =
     (case find (\<lambda>u. username u = new_username user) (users d) of
        Some existing_user \<Rightarrow> (Inl (HTTPException 400 ''Username already registered''), d)
      | None \<Rightarrow>
          (let new_user =
             \<lparr>uid = next_id (map uid (users d)),
              username = new_username user,
              email = new_email user,
              hashed_password = get_password_hash e (password user),
              role = USER\<rparr>
           in case insert_user new_user d of
                None \<Rightarrow> (Inl internal_server_error, d)
              | Some d' \<Rightarrow> (Inr new_user, d')))"

section \<open>Shelf (app/routers/shelf.py)\<close>

definition store_shelf_item :: "ShelfItem \<Rightarrow> db \<Rightarrow> db" where
  "store_shelf_item i d =
     d\<lparr>shelf_items := map (\<lambda>x. if sid x = sid i then i else x) (shelf_items d)\<rparr>"

definition update_shelf_item ::
  "int \<Rightarrow> ShelfItemUpdate \<Rightarrow> db \<Rightarrow> User \<Rightarrow> (HTTPException + ShelfItem) \<times> db" where
  "update_shelf_item item_id update_data d current_user =
     (case find (\<lambda>i. sid i = item_id \<and> user_id i = uid current_user) (shelf_items d) of
        None \<Rightarrow> (Inl (HTTPException 404 ''Shelf item not found''), d)
      | Some shelf_item \<Rightarrow>
          (let item1 = (case upd_status update_data of
                          None \<Rightarrow> shelf_item
                        | Some s \<Rightarrow> shelf_item\<lparr>status := s\<rparr>);
               item2 = (case upd_rating update_data of
                          None \<Rightarrow> item1
                        | Some r \<Rightarrow> item1\<lparr>rating := Some r\<rparr>);
               item3 = (case upd_review update_data of
                          None \<Rightarrow> item2
                        | Some t \<Rightarrow> item2\<lparr>review := Some t\<rparr>)
           in (Inr item3, store_shelf_item item3 d)))"

definition remove_from_shelf :: "int \<Rightarrow> db \<Rightarrow> User \<Rightarrow> (HTTPException + unit) \<times> db" where
  "remove_from_shelf item_id d current_user =
     (case find (\<lambda>i. sid i = item_id \<and> user_id i = uid current_user) (shelf_items d) of
        None \<Rightarrow> (Inl (HTTPException 404 ''Shelf item not found''), d)
      | Some shelf_item \<Rightarrow>
          (Inr (), d\<lparr>shelf_items := filter (\<lambda>i. sid i \<noteq> sid shelf_item) (shelf_items d)\<rparr>))"

section \<open>Books (app/routers/books.py)\<close>

text \<open>
  The commit of a changed book: the column \<open>isbn\<close> of models.Book is \<open>unique=True\<close>, so
  the UPDATE raises \<open>IntegrityError\<close> (\<open>None\<close>) when another row holds the new ISBN;
  rows without an ISBN never collide.
\<close>

definition store_book :: "Book \<Rightarrow> db \<Rightarrow> db option" where
  "store_book b d =
     (case isbn b of
        None \<Rightarrow> Some (d\<lparr>books := map (\<lambda>x. if bid x = bid b then b else x) (books d)\<rparr>)
      | Some i \<Rightarrow>
          if find (\<lambda>x. isbn x = Some i \<and> bid x \<noteq> bid b) (books d) \<noteq> None then None
          else Some (d\<lparr>books := map (\<lambda>x. if bid x = bid b then b else x) (books d)\<rparr>))"

definition update_book ::
  "int \<Rightarrow> BookCreate \<Rightarrow> db \<Rightarrow> User \<Rightarrow> (HTTPException + Book) \<times> db" where
  "update_book target book_update d current_user =
     (case find (\<lambda>b. bid b = target) (books d) of
        None \<Rightarrow> (Inl (HTTPException 404 ''Book not found''), d)
      | Some db_book \<Rightarrow>
          (let db_book' =
             db_book\<lparr>title := in_title book_update,
                     author := in_author book_update,
                     isbn := in_isbn book_update,
                     description := in_description book_update,
                     cover_url := in_cover_url book_update\<rparr>
           in case store_book db_book' d of
                None \<Rightarrow> (Inl internal_server_error, d)
              | Some d' \<Rightarrow> (Inr db_book', d')))"

text \<open>
  \<open>await db.delete(db_book); await db.commit()\<close>: models.Book.shelf_items has no
  delete cascade and \<open>shelf_items.book_id\<close> is a foreign key with \<open>nullable=False\<close>,
  so the flush raises \<open>IntegrityError\<close> (\<open>None\<close>) while a shelf item refers to the
  book.
\<close>

definition remove_book :: "int \<Rightarrow> db \<Rightarrow> db option" where
  "remove_book k d =
     (if find (\<lambda>i. book_id i = k) (shelf_items d) = None
      then Some (d\<lparr>books := filter (\<lambda>b. bid b \<noteq> k) (books d)\<rparr>)
      else None)"

definition delete_book :: "int \<Rightarrow> db \<Rightarrow> User \<Rightarrow> (HTTPException + unit) \<times> db" where
  "delete_book target d current_user =
     (if role current_user \<noteq> ADMIN
      then (Inl (HTTPException 403 ''Only administrators can delete books''), d)
      else
        (case find (\<lambda>b. bid b = target) (books d) of
           None \<Rightarrow> (Inl (HTTPException 404 ''Book not found''), d)
         | Some db_book \<Rightarrow>
             (case remove_book target d of
                None \<Rightarrow> (Inl internal_server_error, d)
              | Some d' \<Rightarrow> (Inr (), d'))))"

section \<open>ISBN search (search_book_by_isbn in app/routers/books.py)\<close>

text \<open>An external call made by the handler: the URL and the timeout passed with it.\<close>

type_synonym call = "string \<times> nat"

text \<open>What leaves the handler's \<open>try\<close> block, by the \<open>except\<close> clause that catches it.\<close>

datatype raised =
    Raised_Timeout
  | Raised_RequestError
  | Raised_HTTP HTTPException
  | Raised_Exception

text \<open>
  The \<open>except\<close> clauses of the handler. Two details end with the text of the caught
  exception, which is not modelled.
\<close>

fun handle_raised :: "raised \<Rightarrow> HTTPException" where
  "handle_raised Raised_Timeout = HTTPException 504 ''Timeout during external API call''"
| "handle_raised Raised_RequestError =
     HTTPException 500 ''Error occurred while accessing external API: ''"
| "handle_raised (Raised_HTTP ex) = ex"
| "handle_raised Raised_Exception = HTTPException 500 ''Unexpected error: ''"

text \<open>The URLs of the primary and of the secondary call.\<close>

definition api_url :: "string \<Rightarrow> string" where
  "api_url isbn_s = ''https://openlibrary.org/isbn/'' @ isbn_s @ ''.json''"

definition author_url :: "env \<Rightarrow> json \<Rightarrow> string" where
  "author_url e author_key = ''https://openlibrary.org'' @ format e author_key @ ''.json''"

definition title_of :: "(string \<times> json) list \<Rightarrow> string" where
  "title_of book_data =
     (case dict_get book_data ''title'' (JStr ''Unknown title'') of
        JStr s \<Rightarrow> if s = [] then ''Unknown title'' else s
      | _ \<Rightarrow> ''Unknown title'')"

definition unknown_author :: json where
  "unknown_author = JStr ''Unknown author''"

text \<open>
  The secondary call, with its own \<open>try ... except Exception: pass\<close>: the author is
  replaced only by a response with status 200 whose body is a dict.
\<close>

definition fetch_author :: "env \<Rightarrow> json \<Rightarrow> json \<times> call list" where
  "fetch_author e author_key =
     (let url = author_url e author_key
      in case http_get e url 5 of
           Response code body \<Rightarrow>
             if code = 200 then
               (case body of
                  None \<Rightarrow> (unknown_author, [(url, 5)])
                | Some author_data \<Rightarrow>
                    (case py_get author_data ''name'' unknown_author of
                       Inl ex \<Rightarrow> (unknown_author, [(url, 5)])
                     | Inr name \<Rightarrow> (name, [(url, 5)])))
             else (unknown_author, [(url, 5)])
         | _ \<Rightarrow> (unknown_author, [(url, 5)]))"

text \<open>
  The author of the book: \<open>len(authors)\<close> is outside the inner \<open>try\<close>, so its
  \<open>TypeError\<close> leaves the block; whatever \<open>authors[0]\<close> raises is caught inside.
\<close>

definition resolve_author ::
  "env \<Rightarrow> (string \<times> json) list \<Rightarrow> py_exception + (json \<times> call list)" where
  "resolve_author e book_data =
     (let authors = dict_get book_data ''authors'' (JArr []) in
      if \<not> truthy authors then Inr (unknown_author, [])
      else
        (case py_len authors of
           Inl ex \<Rightarrow> Inl ex
         | Inr n \<Rightarrow>
             if \<not> n > 0 then Inr (unknown_author, [])
             else
               (case py_index0 authors of
                  Inl ex \<Rightarrow> Inr (unknown_author, [])
                | Inr first \<Rightarrow>
                    (case first of
                       JObj a \<Rightarrow>
                         (let author_key = dict_get a ''key'' (JStr [])
                          in if truthy author_key then Inr (fetch_author e author_key)
                             else Inr (unknown_author, []))
                     | JStr s \<Rightarrow> Inr (JStr s, [])
                     | _ \<Rightarrow> Inr (unknown_author, [])))))"

definition description_of :: "env \<Rightarrow> (string \<times> json) list \<Rightarrow> string" where
  "description_of e book_data =
     (let d0 = dict_get book_data ''description'' (JStr []);
          d1 = (case d0 of
                  JObj inner \<Rightarrow>
                    (let v = dict_get inner ''value'' (JStr [])
                     in if truthy v then v else JStr [])
                | _ \<Rightarrow> d0);
          d2 = (case d1 of
                  JStr s \<Rightarrow> s
                | _ \<Rightarrow> if truthy d1 then py_str e d1 else [])
      in if length d2 > 10000 then take 10000 d2 else d2)"

definition cover_url_of ::
  "env \<Rightarrow> (string \<times> json) list \<Rightarrow> py_exception + string option" where
  "cover_url_of e book_data =
     (let covers = dict_get book_data ''covers'' (JArr []) in
      if truthy covers then
        (case py_index0 covers of
           Inl ex \<Rightarrow> Inl ex
         | Inr cover_id \<Rightarrow>
             Inr (Some (''https://covers.openlibrary.org/b/id/'' @ format e cover_id @ ''-L.jpg'')))
      else Inr None)"

text \<open>
  The value bound to the column \<open>author\<close> (a string, \<open>nullable=False\<close>): \<open>None\<close> when
  the INSERT raises.
\<close>

definition author_column :: "env \<Rightarrow> json \<Rightarrow> string option" where
  "author_column e v =
     (case v of JStr s \<Rightarrow> Some s | JNull \<Rightarrow> None | _ \<Rightarrow> bind_text e v)"

text \<open>
  \<open>db.add(new_book); await db.commit()\<close>: \<open>None\<close> when the unique column \<open>isbn\<close>
  holds the value already.
\<close>

definition insert_book :: "Book \<Rightarrow> db \<Rightarrow> db option" where
  "insert_book b d =
     (case isbn b of
        None \<Rightarrow> Some (d\<lparr>books := books d @ [b]\<rparr>)
      | Some i \<Rightarrow>
          if find (\<lambda>x. isbn x = Some i) (books d) \<noteq> None then None
          else Some (d\<lparr>books := books d @ [b]\<rparr>))"

text \<open>The normalisation of a payload that is a dict, and the INSERT.\<close>

definition create_book ::
  "env \<Rightarrow> string \<Rightarrow> (string \<times> json) list \<Rightarrow> db \<Rightarrow> (raised + Book) \<times> db \<times> call list" where
  "create_book e isbn_s book_data d =
     (case resolve_author e book_data of
        Inl ex \<Rightarrow> (Inl Raised_Exception, d, [])
      | Inr (author_v, calls) \<Rightarrow>
          (case cover_url_of e book_data of
             Inl ex \<Rightarrow> (Inl Raised_Exception, d, calls)
           | Inr cover \<Rightarrow>
               (case author_column e author_v of
                  None \<Rightarrow> (Inl Raised_Exception, d, calls)
                | Some author_s \<Rightarrow>
                    (let new_book =
                       \<lparr>bid = next_id (map bid (books d)),
                        title = title_of book_data,
                        author = author_s,
                        isbn = Some isbn_s,
                        description = Some (description_of e book_data),
                        cover_url = cover\<rparr>
                     in case insert_book new_book d of
                          None \<Rightarrow> (Inl Raised_Exception, d, calls)
                        | Some d' \<Rightarrow> (Inr new_book, d', calls)))))"

text \<open>The \<open>try\<close> block: the primary call, its status checks, and the rest.\<close>

definition fetch_book ::
  "env \<Rightarrow> string \<Rightarrow> db \<Rightarrow> (raised + Book) \<times> db \<times> call list" where
  "fetch_book e isbn_s d =
     (let url = api_url isbn_s
      in case http_get e url 10 of
           TimeoutException \<Rightarrow> (Inl Raised_Timeout, d, [(url, 10)])
         | RequestError \<Rightarrow> (Inl Raised_RequestError, d, [(url, 10)])
         | OtherException \<Rightarrow> (Inl Raised_Exception, d, [(url, 10)])
         | Response code body \<Rightarrow>
             if code = 404 then
               (Inl (Raised_HTTP (HTTPException 404 ''Book not found with this ISBN'')),
                d, [(url, 10)])
             else if code \<noteq> 200 then
               (Inl (Raised_HTTP (HTTPException 500 ''Error occurred during external API call'')),
                d, [(url, 10)])
             else
               (case body of
                  Some (JObj book_data) \<Rightarrow>
                    (case create_book e isbn_s book_data d of
                       (r, d', calls) \<Rightarrow> (r, d', (url, 10) # calls))
                | _ \<Rightarrow> (Inl Raised_Exception, d, [(url, 10)])))"

definition HTTP_201_CREATED :: nat where
  "HTTP_201_CREATED = 201"

text \<open>
  The handler. Its result is the exception raised or the status code of the route's
  decorator with the book returned, then the database, then the external calls made,
  in order.
\<close>

definition search_book_by_isbn ::
  "env \<Rightarrow> string \<Rightarrow> db \<Rightarrow> User \<Rightarrow> (HTTPException + nat \<times> Book) \<times> db \<times> call list" where
  "search_book_by_isbn e isbn_request d current_user =
     (let isbn_s = strip isbn_request in
      case find (\<lambda>b. isbn b = Some isbn_s) (books d) of
        Some existing_book \<Rightarrow> (Inr (HTTP_201_CREATED, existing_book), d, [])
      | None \<Rightarrow>
          (case fetch_book e isbn_s d of
             (Inl r, d', calls) \<Rightarrow> (Inl (handle_raised r), d', calls)
           | (Inr new_book, d', calls) \<Rightarrow> (Inr (HTTP_201_CREATED, new_book), d', calls)))"

text \<open>
  The route's \<open>response_model=schemas.Book\<close>: the framework validates what the
  handler returns against the schema, whose \<open>title\<close> and \<open>author\<close> have
  \<open>min_length=1\<close>, and answers 500 when the validation fails. The database has been
  committed by then.
\<close>

definition response_model_Book :: "Book \<Rightarrow> bool" where
  "response_model_Book b = (title b \<noteq> [] \<and> author b \<noteq> [])"

definition search_response ::
  "env \<Rightarrow> string \<Rightarrow> db \<Rightarrow> User \<Rightarrow> (HTTPException + nat \<times> Book) \<times> db \<times> call list" where
  "search_response e isbn_request d current_user =
     (case search_book_by_isbn e isbn_request d current_user of
        (Inl ex, d', calls) \<Rightarrow> (Inl ex, d', calls)
      | (Inr (code, book), d', calls) \<Rightarrow>
          if response_model_Book book then (Inr (code, book), d', calls)
          else (Inl internal_server_error, d', calls))"

text \<open>
  The route \<open>POST /books/search-by-isbn\<close>: the framework resolves the dependency
  \<open>get_current_user\<close> (and its dependency \<open>oauth2_scheme\<close>) before it calls the handler.
\<close>

definition search_by_isbn_route ::
  "env \<Rightarrow> string option \<Rightarrow> string \<Rightarrow> db \<Rightarrow> (HTTPException + nat \<times> Book) \<times> db \<times> call list" where
  "search_by_isbn_route e authorization isbn_request d =
     (case oauth2_scheme authorization of
        Inl ex \<Rightarrow> (Inl ex, d, [])
      | Inr token \<Rightarrow>
          (case get_current_user e token d of
             Inl ex \<Rightarrow> (Inl ex, d, [])
           | Inr current_user \<Rightarrow> search_response e isbn_request d current_user))"

section \<open>A concrete installation\<close>

text \<open>
  Three users, one book and one shelf entry (Bob's), and an environment in which Open
  Library knows one more book, by its ISBN; the lookup of that book's author times out.
\<close>

definition alice :: User where
  "alice = \<lparr>uid = 1, username = ''alice'', email = ''alice@example.org'',
            hashed_password = ''h1'', role = USER\<rparr>"

definition bob :: User where
  "bob = \<lparr>uid = 2, username = ''bob'', email = ''bob@example.org'',
          hashed_password = ''h2'', role = USER\<rparr>"

definition root :: User where
  "root = \<lparr>uid = 3, username = ''root'', email = ''root@example.org'',
           hashed_password = ''h3'', role = ADMIN\<rparr>"

definition matilda :: Book where
  "matilda = \<lparr>bid = 1, title = ''Matilda'', author = ''Roald Dahl'',
              isbn = Some ''9780140328721'', description = None, cover_url = None\<rparr>"

definition bobs_item :: ShelfItem where
  "bobs_item = \<lparr>sid = 1, user_id = 2, book_id = 1, status = READING,
                rating = None, review = None\<rparr>"

definition db0 :: db where
  "db0 = \<lparr>users = [alice, bob, root], books = [matilda], shelf_items = [bobs_item]\<rparr>"

text \<open>\<open>int(s)\<close> of a string of decimal digits.\<close>

definition digit_string :: "string \<Rightarrow> bool" where
  "digit_string s = (s \<noteq> [] \<and> list_all (\<lambda>c. 48 \<le> (of_char c :: nat) \<and> (of_char c :: nat) \<le> 57) s)"

definition decimal :: "string \<Rightarrow> int" where
  "decimal s = foldl (\<lambda>a c. 10 * a + (int (of_char c) - 48)) 0 s"

definition int0 :: "json \<Rightarrow> int option" where
  "int0 v =
     (case v of
        JStr s \<Rightarrow> if digit_string s then Some (decimal s) else None
      | JNum n \<Rightarrow> Some n
      | _ \<Rightarrow> None)"

definition decode0 :: "string \<Rightarrow> (string \<times> json) list option" where
  "decode0 token =
     (if token = ''alice'' then Some [(''sub'', JStr ''1''), (''username'', JStr ''alice'')]
      else if token = ''nosub'' then Some [(''username'', JStr ''alice'')]
      else if token = ''wordsub'' then Some [(''sub'', JStr ''one'')]
      else if token = ''ghost'' then Some [(''sub'', JStr ''99'')]
      else None)"

definition sawyer :: json where
  "sawyer =
     JObj [(''title'', JStr ''Tom Sawyer''),
           (''authors'', JArr [JObj [(''key'', JStr ''/authors/OL18319A'')]]),
           (''covers'', JArr [JStr ''295577''])]"

definition pride :: json where
  "pride =
     JObj [(''title'', JStr ''Pride and Prejudice''),
           (''authors'', JArr [JStr ''Jane Austen''])]"

definition network0 :: "string \<Rightarrow> nat \<Rightarrow> http_result" where
  "network0 url timeout =
     (if url = ''https://openlibrary.org/isbn/0451526538.json'' then Response 200 (Some sawyer)
      else if url = ''https://openlibrary.org/isbn/0141439518.json'' then Response 200 (Some pride)
      else if url = ''https://openlibrary.org/authors/OL18319A.json'' then TimeoutException
      else Response 404 None)"

definition env0 :: env where
  "env0 = \<lparr>jwt_decode = decode0, py_int = int0, py_str = (\<lambda>v. ''None''),
            get_password_hash = (\<lambda>p. ''hash of '' @ p), http_get = network0,
            bind_text = (\<lambda>v. None)\<rparr>"

text \<open>
  A catalog that also holds a book stored with an empty author, as the search stores
  it for a payload whose first author is the empty string.
\<close>

definition anonymous :: Book where
  "anonymous = \<lparr>bid = 2, title = ''Beowulf'', author = [],
                isbn = Some ''0393320979'', description = Some [], cover_url = None\<rparr>"

definition db1 :: db where
  "db1 = \<lparr>users = [alice, bob, root], books = [matilda, anonymous],
          shelf_items = [bobs_item]\<rparr>"




section \<open>Lookups in the tables\<close>

lemma find_uid: "find (\<lambda>x. uid x = k) xs = Some u \<Longrightarrow> uid u = k"
  by (induction xs) (auto split: if_splits)

lemma find_map_replace:
  "find (\<lambda>x. uid x = k) xs = Some u \<Longrightarrow> uid v = k \<Longrightarrow>
   find (\<lambda>x. uid x = k) (map (\<lambda>x. if uid x = k then v else x) xs) = Some v"
  by (induction xs) (auto split: if_splits)

lemma find_store_user:
  "find (\<lambda>x. uid x = k) (users d) = Some u \<Longrightarrow> uid v = k \<Longrightarrow>
   find (\<lambda>x. uid x = k) (users (store_user v d)) = Some v"
  by (simp add: store_user_def find_map_replace)

lemma find_foreign_item:
  assumes "distinct (map sid xs)" "it \<in> set xs" "sid it = k" "user_id it \<noteq> c"
  shows "find (\<lambda>i. sid i = k \<and> user_id i = c) xs = None"
proof -
  have "inj_on sid (set xs)" using assms(1) by (simp add: distinct_map)
  then have "\<And>x. x \<in> set xs \<Longrightarrow> sid x = k \<Longrightarrow> x = it"
    using assms(2,3) by (auto dest: inj_onD)
  then show ?thesis using assms(4) by (auto simp: find_None_iff)
qed

lemma find_absent_item:
  "find (\<lambda>i. sid i = k) xs = None \<Longrightarrow> find (\<lambda>i. sid i = k \<and> user_id i = c) xs = None"
  by (auto simp: find_None_iff)

lemma find_appended:
  "find P xs = None \<Longrightarrow> P x \<Longrightarrow> find P (xs @ [x]) = Some x"
  by (induction xs) (auto split: if_splits)

section \<open>The ISBN search, step by step\<close>

lemma create_book_calls:
  "create_book e i bd d = (r, d', calls) \<Longrightarrow> calls = [] \<or> (\<exists>url. calls = [(url, 5)])"
  by (auto simp: create_book_def resolve_author_def fetch_author_def Let_def
      split: sum.splits option.splits if_splits json.splits http_result.splits prod.splits)

lemma create_book_result:
  "create_book e i bd d = (r, d', calls) \<Longrightarrow>
   (case r of Inl x \<Rightarrow> d' = d
    | Inr nb \<Rightarrow> isbn nb = Some i \<and> d' = d\<lparr>books := books d @ [nb]\<rparr>)"
  by (auto simp: create_book_def insert_book_def Let_def
      split: sum.splits option.splits if_splits prod.splits)

lemma fetch_book_shape:
  "\<exists>r d' rest. fetch_book e i d = (r, d', (api_url i, 10) # rest)
     \<and> (rest = [] \<or> (\<exists>url. rest = [(url, 5)]))
     \<and> (case r of Inl x \<Rightarrow> d' = d
         | Inr nb \<Rightarrow> isbn nb = Some i \<and> d' = d\<lparr>books := books d @ [nb]\<rparr>)"
proof (cases "http_get e (api_url i) 10")
  case (Response code body)
  show ?thesis
  proof (cases "code = 200 \<and> (\<exists>bd. body = Some (JObj bd))")
    case True
    then obtain bd where b: "body = Some (JObj bd)" and c: "code = 200" by auto
    obtain r d' calls where cb: "create_book e i bd d = (r, d', calls)"
      by (cases "create_book e i bd d") auto
    have "fetch_book e i d = (r, d', (api_url i, 10) # calls)"
      using Response b c cb by (simp add: fetch_book_def Let_def)
    then show ?thesis using create_book_calls[OF cb] create_book_result[OF cb] by auto
  next
    case False
    then show ?thesis using Response
      by (auto simp: fetch_book_def Let_def split: option.splits json.splits)
  qed
qed (auto simp: fetch_book_def Let_def)

lemma search_hit:
  "find (\<lambda>b. isbn b = Some (strip req)) (books d) = Some b \<Longrightarrow>
   search_book_by_isbn e req d cu = (Inr (201, b), d, [])"
  by (simp add: search_book_by_isbn_def HTTP_201_CREATED_def)

lemma search_miss:
  assumes miss: "find (\<lambda>b. isbn b = Some (strip req)) (books d) = None"
  shows "\<exists>out d' rest.
           search_book_by_isbn e req d cu = (out, d', (api_url (strip req), 10) # rest)
           \<and> (rest = [] \<or> (\<exists>url. rest = [(url, 5)]))
           \<and> (case out of
                 Inl ex \<Rightarrow> d' = d
               | Inr (code, nb) \<Rightarrow>
                   code = 201 \<and> isbn nb = Some (strip req)
                   \<and> d' = d\<lparr>books := books d @ [nb]\<rparr>)"
proof -
  obtain r d' rest where
    f: "fetch_book e (strip req) d = (r, d', (api_url (strip req), 10) # rest)"
    and c: "rest = [] \<or> (\<exists>url. rest = [(url, 5)])"
    and s: "(case r of Inl x \<Rightarrow> d' = d
         | Inr nb \<Rightarrow> isbn nb = Some (strip req) \<and> d' = d\<lparr>books := books d @ [nb]\<rparr>)"
    using fetch_book_shape[of e "strip req" d] by blast
  show ?thesis
  proof (cases r)
    case (Inl x)
    then show ?thesis using miss f c s
      by (simp add: search_book_by_isbn_def)
  next
    case (Inr nb)
    then show ?thesis using miss f c s
      by (simp add: search_book_by_isbn_def HTTP_201_CREATED_def)
  qed
qed

lemma search_again:
  assumes miss: "find (\<lambda>b. isbn b = Some (strip req)) (books d) = None"
    and first: "search_book_by_isbn e req d cu = (Inr (code, nb), d', calls)"
  shows "search_book_by_isbn e req d' cu' = (Inr (201, nb), d', [])"
proof -
  from search_miss[OF miss, of e cu] first
  have "isbn nb = Some (strip req) \<and> d' = d\<lparr>books := books d @ [nb]\<rparr>"
    by auto
  then have "find (\<lambda>b. isbn b = Some (strip req)) (books d') = Some nb"
    using miss by (simp add: find_appended)
  then show ?thesis by (rule search_hit)
qed






lemma title_of_nonempty: "title_of book_data \<noteq> []"
  by (auto simp: title_of_def split: json.splits)

section \<open>What the caller of the search receives\<close>

lemma response_hit:
  "find (\<lambda>b. isbn b = Some (strip req)) (books d) = Some b \<Longrightarrow> response_model_Book b \<Longrightarrow>
   search_response e req d cu = (Inr (201, b), d, [])"
  by (simp add: search_response_def search_hit)

lemma response_hit_frame:
  "find (\<lambda>b. isbn b = Some (strip req)) (books d) = Some b \<Longrightarrow>
   snd (search_response e req d cu) = (d, [])"
  by (simp add: search_response_def search_hit)

lemma response_hit_invalid:
  "find (\<lambda>b. isbn b = Some (strip req)) (books d) = Some b \<Longrightarrow> \<not> response_model_Book b \<Longrightarrow>
   search_response e req d cu = (Inl internal_server_error, d, [])"
  by (simp add: search_response_def search_hit)

lemma response_miss:
  assumes miss: "find (\<lambda>b. isbn b = Some (strip req)) (books d) = None"
  shows "\<exists>out d' rest.
           search_response e req d cu = (out, d', (api_url (strip req), 10) # rest)
           \<and> (rest = [] \<or> (\<exists>url. rest = [(url, 5)]))
           \<and> (case out of
                 Inl ex \<Rightarrow>
                   d' = d
                   \<or> (\<exists>nb. isbn nb = Some (strip req) \<and> author nb = []
                            \<and> d' = d\<lparr>books := books d @ [nb]\<rparr>)
               | Inr (code, nb) \<Rightarrow>
                   code = 201 \<and> isbn nb = Some (strip req) \<and> response_model_Book nb
                   \<and> d' = d\<lparr>books := books d @ [nb]\<rparr>)"
proof -
  obtain out d' rest where
    s: "search_book_by_isbn e req d cu = (out, d', (api_url (strip req), 10) # rest)"
    and c: "rest = [] \<or> (\<exists>url. rest = [(url, 5)])"
    and r: "(case out of
                 Inl ex \<Rightarrow> d' = d
               | Inr (code, nb) \<Rightarrow>
                   code = 201 \<and> isbn nb = Some (strip req)
                   \<and> d' = d\<lparr>books := books d @ [nb]\<rparr>)"
    using search_miss[OF miss, of e cu] by blast
  show ?thesis
  proof (cases out)
    case (Inl ex)
    then show ?thesis using s c r by (simp add: search_response_def)
  next
    case (Inr p)
    obtain code nb where p: "p = (code, nb)" by (cases p)
    have t: "title nb \<noteq> []"
      using s Inr p miss
      by (auto simp: search_book_by_isbn_def fetch_book_def create_book_def Let_def
          title_of_nonempty
          split: http_result.splits if_splits option.splits json.splits sum.splits prod.splits)
    show ?thesis
    proof (cases "response_model_Book nb")
      case True
      then show ?thesis using s c r Inr p by (simp add: search_response_def)
    next
      case False
      then have "author nb = []" using t by (simp add: response_model_Book_def)
      then show ?thesis using s c r Inr p False by (auto simp: search_response_def)
    qed
  qed
qed

lemma create_book_fresh:
  assumes "resolve_author e book_data = Inr (author_v, calls)"
    and "cover_url_of e book_data = Inr cover"
    and "author_column e author_v = Some author_s"
    and "find (\<lambda>b. isbn b = Some i) (books d) = None"
  shows "create_book e i book_data d =
     (let nb = \<lparr>bid = next_id (map bid (books d)), title = title_of book_data,
                author = author_s, isbn = Some i,
                description = Some (description_of e book_data), cover_url = cover\<rparr>
      in (Inr nb, d\<lparr>books := books d @ [nb]\<rparr>, calls))"
  using assms by (simp add: create_book_def insert_book_def Let_def)

lemma response_fresh:
  assumes miss: "find (\<lambda>b. isbn b = Some (strip req)) (books d) = None"
    and primary: "http_get e (api_url (strip req)) 10 = Response 200 (Some (JObj book_data))"
    and ra: "resolve_author e book_data = Inr (author_v, calls)"
    and cv: "cover_url_of e book_data = Inr cover"
    and ac: "author_column e author_v = Some author_s"
    and ne: "author_s \<noteq> []"
  shows "(let nb = \<lparr>bid = next_id (map bid (books d)), title = title_of book_data,
                   author = author_s, isbn = Some (strip req),
                   description = Some (description_of e book_data), cover_url = cover\<rparr>
         in search_response e req d cu
              = (Inr (201, nb), d\<lparr>books := books d @ [nb]\<rparr>,
                 (api_url (strip req), 10) # calls))"
  using miss primary ne create_book_fresh[OF ra cv ac miss]
  by (simp add: search_response_def search_book_by_isbn_def fetch_book_def
      HTTP_201_CREATED_def response_model_Book_def title_of_nonempty Let_def)

lemma response_upstream_failure:
  assumes miss: "find (\<lambda>b. isbn b = Some (strip req)) (books d) = None"
    and primary: "http_get e (api_url (strip req)) 10 = r"
  shows "(r = TimeoutException \<longrightarrow>
            search_response e req d cu
              = (Inl (HTTPException 504 ''Timeout during external API call''), d,
                 [(api_url (strip req), 10)]))
       \<and> (r = Response 404 body \<longrightarrow>
            search_response e req d cu
              = (Inl (HTTPException 404 ''Book not found with this ISBN''), d,
                 [(api_url (strip req), 10)]))"
  using miss primary
  by (simp add: search_response_def search_book_by_isbn_def fetch_book_def Let_def)

lemma response_success:
  "search_response e req d cu = (Inr (code, nb), d', calls) \<Longrightarrow>
   search_book_by_isbn e req d cu = (Inr (code, nb), d', calls) \<and> response_model_Book nb"
  by (auto simp: search_response_def split: prod.splits sum.splits if_splits)

lemma response_again:
  assumes miss: "find (\<lambda>b. isbn b = Some (strip req)) (books d) = None"
    and first: "search_response e req d cu = (Inr (code, nb), d', calls)"
  shows "search_response e req d' cu' = (Inr (201, nb), d', [])"
  using search_again[OF miss, of e cu code nb d' calls cu'] response_success[OF first]
  by (simp add: search_response_def)

section \<open>Claims about the ISBN search\<close>

text \<open>
  Claim C1, as the code has it, for a caller who has passed authentication.

  When a book with the trimmed ISBN is in the catalog, the handler returns that book,
  makes no external call and leaves the database as it was; the caller receives the
  book under the route's one success status, 201, when the stored book passes the
  response schema (its title and author are not empty), and a 500 otherwise.

  When there is none, the first call made is the primary one (the per-ISBN URL, timeout
  10), followed by at most one secondary call (timeout 5). When the primary call
  answers 200 with a JSON object whose author and cover entries can be read and whose
  author is stored as a string that is not empty, the caller receives status 201 with
  the new book, which carries the trimmed ISBN and is the one row appended to the
  catalog. A primary call that times out ends in 504 and one that answers 404 in 404,
  both with the database unchanged. Any answer with a book has status 201, and a
  second search for the same ISBN answers with that same book and no external call.
\<close>

theorem search_book_by_isbn_cache:
  "(find (\<lambda>b. isbn b = Some (strip req)) (books d) = Some b \<longrightarrow>
      search_book_by_isbn e req d cu = (Inr (201, b), d, [])
      \<and> snd (search_response e req d cu) = (d, [])
      \<and> (response_model_Book b \<longrightarrow> search_response e req d cu = (Inr (201, b), d, []))
      \<and> (\<not> response_model_Book b \<longrightarrow>
            search_response e req d cu = (Inl internal_server_error, d, [])))
   \<and> (find (\<lambda>b. isbn b = Some (strip req)) (books d) = None \<longrightarrow>
        (\<exists>out d' rest.
           search_response e req d cu = (out, d', (api_url (strip req), 10) # rest)
           \<and> (rest = [] \<or> (\<exists>url. rest = [(url, 5)]))
           \<and> (case out of
                 Inl ex \<Rightarrow>
                   d' = d
                   \<or> (\<exists>nb. isbn nb = Some (strip req) \<and> author nb = []
                            \<and> d' = d\<lparr>books := books d @ [nb]\<rparr>)
               | Inr (code, nb) \<Rightarrow>
                   code = 201 \<and> isbn nb = Some (strip req) \<and> response_model_Book nb
                   \<and> d' = d\<lparr>books := books d @ [nb]\<rparr>)))
   \<and> (find (\<lambda>b. isbn b = Some (strip req)) (books d) = None
        \<and> http_get e (api_url (strip req)) 10 = Response 200 (Some (JObj book_data))
        \<and> resolve_author e book_data = Inr (author_v, calls)
        \<and> cover_url_of e book_data = Inr cover
        \<and> author_column e author_v = Some author_s \<and> author_s \<noteq> []
      \<longrightarrow>
        (let nb = \<lparr>bid = next_id (map bid (books d)), title = title_of book_data,
                   author = author_s, isbn = Some (strip req),
                   description = Some (description_of e book_data), cover_url = cover\<rparr>
         in search_response e req d cu
              = (Inr (201, nb), d\<lparr>books := books d @ [nb]\<rparr>,
                 (api_url (strip req), 10) # calls)))
   \<and> (find (\<lambda>b. isbn b = Some (strip req)) (books d) = None
        \<and> http_get e (api_url (strip req)) 10 = TimeoutException
      \<longrightarrow> search_response e req d cu
            = (Inl (HTTPException 504 ''Timeout during external API call''), d,
               [(api_url (strip req), 10)]))
   \<and> (find (\<lambda>b. isbn b = Some (strip req)) (books d) = None
        \<and> http_get e (api_url (strip req)) 10 = Response 404 body
      \<longrightarrow> search_response e req d cu
            = (Inl (HTTPException 404 ''Book not found with this ISBN''), d,
               [(api_url (strip req), 10)]))
   \<and> (\<forall>code nb d' calls'.
         find (\<lambda>b. isbn b = Some (strip req)) (books d) = None
         \<and> search_response e req d cu = (Inr (code, nb), d', calls')
        \<longrightarrow> search_response e req d' cu' = (Inr (201, nb), d', []))"
proof (intro conjI impI allI)
  assume "find (\<lambda>b. isbn b = Some (strip req)) (books d) = Some b"
  then show "search_book_by_isbn e req d cu = (Inr (201, b), d, [])"
    and "snd (search_response e req d cu) = (d, [])"
    by (rule search_hit, rule response_hit_frame)
next
  assume "find (\<lambda>b. isbn b = Some (strip req)) (books d) = Some b"
    and "response_model_Book b"
  then show "search_response e req d cu = (Inr (201, b), d, [])"
    by (rule response_hit)
next
  assume "find (\<lambda>b. isbn b = Some (strip req)) (books d) = Some b"
    and "\<not> response_model_Book b"
  then show "search_response e req d cu = (Inl internal_server_error, d, [])"
    by (rule response_hit_invalid)
next
  assume "find (\<lambda>b. isbn b = Some (strip req)) (books d) = None"
  then show "\<exists>out d' rest.
           search_response e req d cu = (out, d', (api_url (strip req), 10) # rest)
           \<and> (rest = [] \<or> (\<exists>url. rest = [(url, 5)]))
           \<and> (case out of
                 Inl ex \<Rightarrow>
                   d' = d
                   \<or> (\<exists>nb. isbn nb = Some (strip req) \<and> author nb = []
                            \<and> d' = d\<lparr>books := books d @ [nb]\<rparr>)
               | Inr (code, nb) \<Rightarrow>
                   code = 201 \<and> isbn nb = Some (strip req) \<and> response_model_Book nb
                   \<and> d' = d\<lparr>books := books d @ [nb]\<rparr>)"
    by (rule response_miss)
next
  assume h: "find (\<lambda>b. isbn b = Some (strip req)) (books d) = None
        \<and> http_get e (api_url (strip req)) 10 = Response 200 (Some (JObj book_data))
        \<and> resolve_author e book_data = Inr (author_v, calls)
        \<and> cover_url_of e book_data = Inr cover
        \<and> author_column e author_v = Some author_s \<and> author_s \<noteq> []"
  show "(let nb = \<lparr>bid = next_id (map bid (books d)), title = title_of book_data,
                   author = author_s, isbn = Some (strip req),
                   description = Some (description_of e book_data), cover_url = cover\<rparr>
         in search_response e req d cu
              = (Inr (201, nb), d\<lparr>books := books d @ [nb]\<rparr>,
                 (api_url (strip req), 10) # calls))"
    using h response_fresh[of req d e book_data author_v calls cover author_s cu] by blast
next
  assume "find (\<lambda>b. isbn b = Some (strip req)) (books d) = None
        \<and> http_get e (api_url (strip req)) 10 = TimeoutException"
  then show "search_response e req d cu
            = (Inl (HTTPException 504 ''Timeout during external API call''), d,
               [(api_url (strip req), 10)])"
    using response_upstream_failure[of req d e TimeoutException cu] by blast
next
  assume "find (\<lambda>b. isbn b = Some (strip req)) (books d) = None
        \<and> http_get e (api_url (strip req)) 10 = Response 404 body"
  then show "search_response e req d cu
            = (Inl (HTTPException 404 ''Book not found with this ISBN''), d,
               [(api_url (strip req), 10)])"
    using response_upstream_failure[of req d e "Response 404 body" cu body] by blast
next
  fix code nb d' calls'
  assume "find (\<lambda>b. isbn b = Some (strip req)) (books d) = None
         \<and> search_response e req d cu = (Inr (code, nb), d', calls')"
  then show "search_response e req d' cu' = (Inr (201, nb), d', [])"
    using response_again by blast
qed

text \<open>
  The theorem at work: Matilda is in the catalog under the ISBN of the request once it
  is trimmed; Pride and Prejudice is not, Open Library knows it, and the search stores
  it and answers 201; then the same search answers with the stored book and no call.
\<close>

theorem search_book_by_isbn_cache_witness:
  "find (\<lambda>b. isbn b = Some (strip '' 9780140328721 '')) (books db0) = Some matilda
   \<and> response_model_Book matilda
   \<and> search_response env0 '' 9780140328721 '' db0 alice = (Inr (201, matilda), db0, [])
   \<and> find (\<lambda>b. isbn b = Some (strip ''0141439518'')) (books db0) = None
   \<and> http_get env0 (api_url (strip ''0141439518'')) 10 = Response 200 (Some pride)
   \<and> search_response env0 ''0141439518'' db0 alice
       = (Inr (201, \<lparr>bid = 2, title = ''Pride and Prejudice'', author = ''Jane Austen'',
                      isbn = Some ''0141439518'', description = Some [], cover_url = None\<rparr>),
          db0\<lparr>books := [matilda,
                \<lparr>bid = 2, title = ''Pride and Prejudice'', author = ''Jane Austen'',
                  isbn = Some ''0141439518'', description = Some [], cover_url = None\<rparr>]\<rparr>,
          [(''https://openlibrary.org/isbn/0141439518.json'', 10)])
   \<and> search_response env0 ''0141439518''
        (db0\<lparr>books := [matilda,
                \<lparr>bid = 2, title = ''Pride and Prejudice'', author = ''Jane Austen'',
                  isbn = Some ''0141439518'', description = Some [], cover_url = None\<rparr>]\<rparr>) bob
       = (Inr (201, \<lparr>bid = 2, title = ''Pride and Prejudice'', author = ''Jane Austen'',
                      isbn = Some ''0141439518'', description = Some [], cover_url = None\<rparr>),
          db0\<lparr>books := [matilda,
                \<lparr>bid = 2, title = ''Pride and Prejudice'', author = ''Jane Austen'',
                  isbn = Some ''0141439518'', description = Some [], cover_url = None\<rparr>]\<rparr>,
          [])"
proof -
  let ?data = "[(''title'', JStr ''Pride and Prejudice''),
                (''authors'', JArr [JStr ''Jane Austen''])]"
  let ?nb = "\<lparr>bid = 2, title = ''Pride and Prejudice'', author = ''Jane Austen'',
              isbn = Some ''0141439518'', description = Some [], cover_url = None\<rparr>"
  have hit: "find (\<lambda>b. isbn b = Some (strip '' 9780140328721 '')) (books db0) = Some matilda"
    by (simp add: strip_def is_space_def db0_def matilda_def)
  have ok: "response_model_Book matilda"
    by (simp add: response_model_Book_def matilda_def)
  have st: "strip ''0141439518'' = ''0141439518''"
    by (simp add: strip_def is_space_def)
  have miss: "find (\<lambda>b. isbn b = Some (strip ''0141439518'')) (books db0) = None"
    by (simp add: st db0_def matilda_def)
  have primary: "http_get env0 (api_url (strip ''0141439518'')) 10 = Response 200 (Some (JObj ?data))"
    by (simp add: st env0_def network0_def api_url_def pride_def)
  have ra: "resolve_author env0 ?data = Inr (JStr ''Jane Austen'', [])"
    by (simp add: resolve_author_def dict_get_def Let_def)
  have cv: "cover_url_of env0 ?data = Inr None"
    by (simp add: cover_url_of_def dict_get_def)
  have ac: "author_column env0 (JStr ''Jane Austen'') = Some ''Jane Austen''
            \<and> ''Jane Austen'' \<noteq> []"
    by (simp add: author_column_def)
  have bk: "books db0 = [matilda]" by (simp add: db0_def)
  have vals: "next_id [bid matilda] = 2" "title_of ?data = ''Pride and Prejudice''"
      "description_of env0 ?data = []"
      "api_url ''0141439518'' = ''https://openlibrary.org/isbn/0141439518.json''"
    by (simp_all add: next_id_def matilda_def title_of_def dict_get_def
        description_of_def api_url_def)
  have 1: "search_response env0 '' 9780140328721 '' db0 alice = (Inr (201, matilda), db0, [])"
    using search_book_by_isbn_cache [of "'' 9780140328721 ''" db0 matilda env0 alice] hit ok
    by blast
  have 2: "search_response env0 ''0141439518'' db0 alice
       = (Inr (201, ?nb), db0\<lparr>books := [matilda, ?nb]\<rparr>,
          [(''https://openlibrary.org/isbn/0141439518.json'', 10)])"
    using search_book_by_isbn_cache [of "''0141439518''" db0 matilda env0 alice ?data
        "JStr ''Jane Austen''" "[]" None "''Jane Austen''"]
      miss primary ra cv ac
    by (simp add: Let_def st bk vals)
  have 3: "search_response env0 ''0141439518'' (db0\<lparr>books := [matilda, ?nb]\<rparr>) bob
       = (Inr (201, ?nb), db0\<lparr>books := [matilda, ?nb]\<rparr>, [])"
    using search_book_by_isbn_cache [of "''0141439518''" db0 matilda env0 alice ?data
        "JStr ''Jane Austen''" "[]" None "''Jane Austen''" None bob]
      miss 2
    by blast
  show ?thesis using hit ok miss primary 1 2 3 by (simp add: pride_def)
qed

text \<open>
  Claim C1 as stated fails three times. The book that is already in the catalog comes
  back with status 201, not 200. A book stored with an empty author is found and
  returned by the handler, and the caller receives a 500. And on a miss for which Open
  Library answers 404 the one primary call is made and no book is returned.
\<close>

theorem search_hit_status_201:
  "find (\<lambda>b. isbn b = Some (strip '' 9780140328721 '')) (books db0) = Some matilda
   \<and> fst (search_response env0 '' 9780140328721 '' db0 alice) = Inr (201, matilda)
   \<and> fst (search_response env0 '' 9780140328721 '' db0 alice) \<noteq> Inr (200, matilda)
   \<and> find (\<lambda>b. isbn b = Some (strip ''0393320979'')) (books db1) = Some anonymous
   \<and> search_response env0 ''0393320979'' db1 alice
       = (Inl (HTTPException 500 ''Internal Server Error''), db1, [])
   \<and> find (\<lambda>b. isbn b = Some (strip ''0000000000'')) (books db0) = None
   \<and> search_response env0 ''0000000000'' db0 alice
       = (Inl (HTTPException 404 ''Book not found with this ISBN''), db0,
          [(''https://openlibrary.org/isbn/0000000000.json'', 10)])"
  by (simp add: search_response_def search_book_by_isbn_def fetch_book_def
      HTTP_201_CREATED_def strip_def is_space_def response_model_Book_def
      internal_server_error_def api_url_def env0_def network0_def
      db0_def db1_def matilda_def anonymous_def Let_def)




text \<open>
  Claim C6, as the code has it. The route depends on \<open>get_current_user\<close>: a request
  without a bearer token is rejected with 401 before the handler runs, with no external
  call and the database unchanged, and so is a request whose token does not verify. A
  request whose token resolves to a user reaches the handler, and what it receives
  does not depend on who that user is: any role may search.
\<close>

theorem search_requires_token:
  "search_by_isbn_route e None req d = (Inl (HTTPException 401 ''Not authenticated''), d, [])
   \<and> (\<forall>ex. get_current_user e token d = Inl ex \<longrightarrow>
         search_by_isbn_route e (Some token) req d = (Inl credentials_exception, d, []))
   \<and> (\<forall>cu. get_current_user e token d = Inr cu \<longrightarrow>
         search_by_isbn_route e (Some token) req d = search_response e req d cu)
   \<and> search_response e req d cu1 = search_response e req d cu2"
  by (auto simp: search_by_isbn_route_def oauth2_scheme_def search_response_def
           search_book_by_isbn_def get_current_user_def Let_def split: option.splits if_splits)

text \<open>The theorem at work: a forged token, and Alice's token.\<close>

theorem search_requires_token_witness:
  "get_current_user env0 ''forged'' db0 = Inl credentials_exception
   \<and> search_by_isbn_route env0 (Some ''forged'') ''9780140328721'' db0
       = (Inl credentials_exception, db0, [])
   \<and> get_current_user env0 ''alice'' db0 = Inr alice
   \<and> search_by_isbn_route env0 (Some ''alice'') ''9780140328721'' db0
       = search_response env0 ''9780140328721'' db0 alice"
proof -
  have 1: "get_current_user env0 ''forged'' db0 = Inl credentials_exception"
    by (simp add: get_current_user_def env0_def decode0_def)
  have 2: "get_current_user env0 ''alice'' db0 = Inr alice"
    by (simp add: get_current_user_def env0_def decode0_def dict_get_def int0_def
        digit_string_def decimal_def db0_def alice_def)
  show ?thesis
    using 1 2 search_requires_token [of env0 "''9780140328721''" db0 "''forged''"]
      search_requires_token [of env0 "''9780140328721''" db0 "''alice''"]
    by simp
qed

text \<open>
  Claim C6 as stated fails: the search without a bearer token is rejected as
  unauthenticated.
\<close>

theorem search_without_token_unauthenticated:
  "search_by_isbn_route env0 None ''9780140328721'' db0
     = (Inl (HTTPException 401 ''Not authenticated''), db0, [])"
  by (simp add: search_by_isbn_route_def oauth2_scheme_def)

section \<open>Claims about the shelf and the catalog\<close>

text \<open>
  Claim C3, as the code has it. The shelf handlers look the item up by its id and the
  caller's id together. When the item exists and belongs to another user, updating and
  removing it both end in 404 \<open>Shelf item not found\<close> with the database unchanged,
  which is exactly the outcome for an id that no item has: the refusal is not a
  Forbidden outcome and cannot be told from NotFound.
\<close>

theorem foreign_shelf_item_not_found:
  "(distinct (map sid (shelf_items d)) \<and> it \<in> set (shelf_items d) \<and> sid it = item_id
      \<and> user_id it \<noteq> uid cu
    \<longrightarrow> update_shelf_item item_id upd d cu
          = (Inl (HTTPException 404 ''Shelf item not found''), d)
        \<and> remove_from_shelf item_id d cu
          = (Inl (HTTPException 404 ''Shelf item not found''), d))
   \<and> (find (\<lambda>i. sid i = item_id) (shelf_items d) = None
    \<longrightarrow> update_shelf_item item_id upd d cu
          = (Inl (HTTPException 404 ''Shelf item not found''), d)
        \<and> remove_from_shelf item_id d cu
          = (Inl (HTTPException 404 ''Shelf item not found''), d))"
  by (auto simp: update_shelf_item_def remove_from_shelf_def find_foreign_item find_absent_item)

text \<open>The theorem at work: Alice reaches for Bob's item 1, and for an item 7 nobody has.\<close>

theorem foreign_shelf_item_not_found_witness:
  "distinct (map sid (shelf_items db0)) \<and> bobs_item \<in> set (shelf_items db0)
   \<and> sid bobs_item = 1 \<and> user_id bobs_item \<noteq> uid alice
   \<and> update_shelf_item 1 \<lparr>upd_status = None, upd_rating = Some 4, upd_review = None\<rparr> db0 alice
       = (Inl (HTTPException 404 ''Shelf item not found''), db0)
   \<and> remove_from_shelf 1 db0 alice = (Inl (HTTPException 404 ''Shelf item not found''), db0)
   \<and> find (\<lambda>i. sid i = 7) (shelf_items db0) = None
   \<and> remove_from_shelf 7 db0 alice = (Inl (HTTPException 404 ''Shelf item not found''), db0)"
proof -
  have h: "distinct (map sid (shelf_items db0)) \<and> bobs_item \<in> set (shelf_items db0)
     \<and> sid bobs_item = 1 \<and> user_id bobs_item \<noteq> uid alice
     \<and> find (\<lambda>i. sid i = 7) (shelf_items db0) = None"
    by (simp add: db0_def bobs_item_def alice_def)
  show ?thesis
    using h
      foreign_shelf_item_not_found [of db0 bobs_item 1 alice
        "\<lparr>upd_status = None, upd_rating = Some 4, upd_review = None\<rparr>"]
      foreign_shelf_item_not_found [of db0 bobs_item 7 alice
        "\<lparr>upd_status = None, upd_rating = Some 4, upd_review = None\<rparr>"]
    by simp
qed

text \<open>
  Claim C3 as stated fails: Alice's update and removal of Bob's item end in 404, the
  very outcome of removing an item that does not exist, not in a Forbidden outcome.
\<close>

theorem foreign_shelf_item_not_forbidden:
  "find (\<lambda>i. sid i = 1) (shelf_items db0) = Some bobs_item
   \<and> user_id bobs_item \<noteq> uid alice
   \<and> fst (update_shelf_item 1 \<lparr>upd_status = None, upd_rating = Some 4, upd_review = None\<rparr>
            db0 alice)
       = Inl (HTTPException 404 ''Shelf item not found'')
   \<and> fst (remove_from_shelf 1 db0 alice) = Inl (HTTPException 404 ''Shelf item not found'')
   \<and> find (\<lambda>i. sid i = 7) (shelf_items db0) = None
   \<and> fst (remove_from_shelf 7 db0 alice) = fst (remove_from_shelf 1 db0 alice)"
  by (simp add: update_shelf_item_def remove_from_shelf_def db0_def bobs_item_def alice_def)

text \<open>
  Claim C4, as the code has it. \<open>DELETE /books/{id}\<close> by a caller who is not ADMIN is
  denied with 403 and the database is unchanged, and a deletion that succeeds was asked
  by an ADMIN. \<open>PUT /books/{id}\<close> is gated on authentication alone: its result does not
  depend on the caller, and for any caller an existing book takes the submitted fields
  as long as the new ISBN is not the ISBN of another book.
\<close>

theorem book_mutation_gates:
  "(role cu \<noteq> ADMIN \<longrightarrow>
      delete_book target d cu
        = (Inl (HTTPException 403 ''Only administrators can delete books''), d))
   \<and> (\<forall>d'. delete_book target d cu = (Inr (), d') \<longrightarrow> role cu = ADMIN)
   \<and> update_book target upd d cu = update_book target upd d cu'
   \<and> (find (\<lambda>x. bid x = target) (books d) = Some b
        \<and> (case in_isbn upd of None \<Rightarrow> True
            | Some i \<Rightarrow> find (\<lambda>x. isbn x = Some i \<and> bid x \<noteq> target) (books d) = None)
      \<longrightarrow>
        (let b' = b\<lparr>title := in_title upd, author := in_author upd, isbn := in_isbn upd,
                    description := in_description upd, cover_url := in_cover_url upd\<rparr>
         in update_book target upd d cu
              = (Inr b', d\<lparr>books := map (\<lambda>x. if bid x = target then b' else x) (books d)\<rparr>)))"
proof (intro conjI impI allI)
  assume "role cu \<noteq> ADMIN"
  then show "delete_book target d cu
        = (Inl (HTTPException 403 ''Only administrators can delete books''), d)"
    by (simp add: delete_book_def)
next
  fix d' assume "delete_book target d cu = (Inr (), d')"
  then show "role cu = ADMIN" by (auto simp: delete_book_def split: if_splits)
next
  show "update_book target upd d cu = update_book target upd d cu'"
    by (simp add: update_book_def)
next
  assume h: "find (\<lambda>x. bid x = target) (books d) = Some b
        \<and> (case in_isbn upd of None \<Rightarrow> True
            | Some i \<Rightarrow> find (\<lambda>x. isbn x = Some i \<and> bid x \<noteq> target) (books d) = None)"
  then have k: "bid b = target" by (auto simp: find_Some_iff)
  from h k show "(let b' = b\<lparr>title := in_title upd, author := in_author upd, isbn := in_isbn upd,
                    description := in_description upd, cover_url := in_cover_url upd\<rparr>
         in update_book target upd d cu
              = (Inr b', d\<lparr>books := map (\<lambda>x. if bid x = target then b' else x) (books d)\<rparr>))"
    by (cases "in_isbn upd") (simp_all add: update_book_def store_book_def Let_def)
qed

text \<open>The theorem at work: Alice, a plain user, may not delete Matilda but may rewrite it.\<close>

theorem book_mutation_gates_witness:
  "role alice \<noteq> ADMIN
   \<and> delete_book 1 db0 alice
       = (Inl (HTTPException 403 ''Only administrators can delete books''), db0)
   \<and> find (\<lambda>x. bid x = 1) (books db0) = Some matilda
   \<and> fst (update_book 1 \<lparr>in_title = ''Defaced'', in_author = ''Nobody'', in_isbn = None,
                     in_description = None, in_cover_url = None\<rparr> db0 alice)
       = Inr (matilda\<lparr>title := ''Defaced'', author := ''Nobody'', isbn := None,
                      description := None, cover_url := None\<rparr>)"
proof -
  have h: "role alice \<noteq> ADMIN \<and> find (\<lambda>x. bid x = 1) (books db0) = Some matilda"
    by (simp add: alice_def db0_def matilda_def)
  show ?thesis
    using h book_mutation_gates [of alice 1 db0
        "\<lparr>in_title = ''Defaced'', in_author = ''Nobody'', in_isbn = None,
          in_description = None, in_cover_url = None\<rparr>" alice matilda]
    by (simp add: Let_def)
qed

text \<open>
  Claim C4 as stated fails: Alice is not ADMIN, her \<open>PUT /books/1\<close> succeeds and the
  stored book is changed.
\<close>

theorem update_book_by_non_admin:
  "role alice \<noteq> ADMIN
   \<and> update_book 1 \<lparr>in_title = ''Defaced'', in_author = ''Nobody'', in_isbn = None,
                     in_description = None, in_cover_url = None\<rparr> db0 alice
     = (Inr \<lparr>bid = 1, title = ''Defaced'', author = ''Nobody'', isbn = None,
              description = None, cover_url = None\<rparr>,
        db0\<lparr>books := [\<lparr>bid = 1, title = ''Defaced'', author = ''Nobody'', isbn = None,
              description = None, cover_url = None\<rparr>]\<rparr>)"
  by (simp add: update_book_def store_book_def db0_def matilda_def alice_def Let_def)

section \<open>Claims about users and tokens\<close>

text \<open>
  Claim C5 at its failing input. Carol registers under a new username with Alice's
  email. The handler checks the username only, the INSERT violates the unique column
  \<open>email\<close>, and the exception leaves the application as a 500 with the database
  unchanged; \<open>update_user\<close> answers the same collision with 400
  \<open>Email already taken\<close>.
\<close>

theorem register_duplicate_email:
  "register env0
     \<lparr>new_username = ''carol'', new_email = ''alice@example.org'', password = ''pw''\<rparr> db0
     = (Inl (HTTPException 500 ''Internal Server Error''), db0)
   \<and> fst (update_user 2
            \<lparr>upd_username = None, upd_email = Some ''alice@example.org'', upd_role = None\<rparr>
            db0 bob)
     = Inl (HTTPException 400 ''Email already taken'')"
  by (simp add: register_def insert_user_def internal_server_error_def update_user_def
      db0_def alice_def bob_def root_def)

text \<open>
  Claim C7. When the caller is not ADMIN, a role submitted to \<open>update_user\<close> changes
  nothing and raises nothing: the result is the result of the same request without a
  role. For such a caller updating their own record with a free username and email, the
  request succeeds, the submitted username and email are stored, and the stored role is
  the old one. Whenever an update changes the role, the caller is ADMIN and the new role
  is the submitted one.
\<close>

theorem update_user_role_admin_only:
  "(role cu \<noteq> ADMIN \<and> uid cu = target
      \<and> find (\<lambda>x. uid x = target) (users d) = Some u
      \<and> (case un of None \<Rightarrow> True
          | Some n \<Rightarrow> find (\<lambda>x. username x = n \<and> uid x \<noteq> target) (users d) = None)
      \<and> (case em of None \<Rightarrow> True
          | Some m \<Rightarrow> find (\<lambda>x. email x = m \<and> uid x \<noteq> target) (users d) = None)
    \<longrightarrow>
      (let u' = u\<lparr>username := (case un of None \<Rightarrow> username u | Some n \<Rightarrow> n),
                  email := (case em of None \<Rightarrow> email u | Some m \<Rightarrow> m)\<rparr>
       in update_user target \<lparr>upd_username = un, upd_email = em, upd_role = Some r\<rparr> d cu
            = (Inr u', store_user u' d)
          \<and> role u' = role u
          \<and> find (\<lambda>x. uid x = target) (users (store_user u' d)) = Some u'))
   \<and> (role cu \<noteq> ADMIN \<longrightarrow>
        update_user target (upd\<lparr>upd_role := Some r\<rparr>) d cu
          = update_user target (upd\<lparr>upd_role := None\<rparr>) d cu)
   \<and> (\<forall>v v' d'. find (\<lambda>x. uid x = target) (users d) = Some v
          \<and> update_user target upd d cu = (Inr v', d') \<and> role v' \<noteq> role v
        \<longrightarrow> role cu = ADMIN \<and> upd_role upd = Some (role v'))"
proof (intro conjI impI allI)
  assume h: "role cu \<noteq> ADMIN \<and> uid cu = target
      \<and> find (\<lambda>x. uid x = target) (users d) = Some u
      \<and> (case un of None \<Rightarrow> True
          | Some n \<Rightarrow> find (\<lambda>x. username x = n \<and> uid x \<noteq> target) (users d) = None)
      \<and> (case em of None \<Rightarrow> True
          | Some m \<Rightarrow> find (\<lambda>x. email x = m \<and> uid x \<noteq> target) (users d) = None)"
  then have k: "uid u = target" by (auto dest: find_uid)
  from h k show "(let u' = u\<lparr>username := (case un of None \<Rightarrow> username u | Some n \<Rightarrow> n),
                  email := (case em of None \<Rightarrow> email u | Some m \<Rightarrow> m)\<rparr>
       in update_user target \<lparr>upd_username = un, upd_email = em, upd_role = Some r\<rparr> d cu
            = (Inr u', store_user u' d)
          \<and> role u' = role u
          \<and> find (\<lambda>x. uid x = target) (users (store_user u' d)) = Some u')"
    by (cases un; cases em) (simp_all add: update_user_def Let_def find_store_user)
next
  assume "role cu \<noteq> ADMIN"
  then show "update_user target (upd\<lparr>upd_role := Some r\<rparr>) d cu
          = update_user target (upd\<lparr>upd_role := None\<rparr>) d cu"
    by (auto simp: update_user_def Let_def split: option.splits sum.splits)
next
  fix v v' d'
  assume h: "find (\<lambda>x. uid x = target) (users d) = Some v
          \<and> update_user target upd d cu = (Inr v', d') \<and> role v' \<noteq> role v"
  then show "role cu = ADMIN"
    by (auto simp: update_user_def Let_def split: if_splits option.splits sum.splits)
  from h show "upd_role upd = Some (role v')"
    by (auto simp: update_user_def Let_def split: if_splits option.splits sum.splits)
qed

text \<open>
  The theorem at work: Alice renames herself and asks for the role ADMIN; the name is
  taken, the role is not.
\<close>

theorem update_user_role_admin_only_witness:
  "role alice \<noteq> ADMIN \<and> uid alice = 1
   \<and> find (\<lambda>x. uid x = 1) (users db0) = Some alice
   \<and> find (\<lambda>x. username x = ''alicia'' \<and> uid x \<noteq> 1) (users db0) = None
   \<and> fst (update_user 1 \<lparr>upd_username = Some ''alicia'', upd_email = None, upd_role = Some ADMIN\<rparr>
            db0 alice)
       = Inr (alice\<lparr>username := ''alicia''\<rparr>)
   \<and> role (alice\<lparr>username := ''alicia''\<rparr>) = USER"
proof -
  have h: "role alice \<noteq> ADMIN \<and> uid alice = 1
     \<and> find (\<lambda>x. uid x = 1) (users db0) = Some alice
     \<and> find (\<lambda>x. username x = ''alicia'' \<and> uid x \<noteq> 1) (users db0) = None"
    by (simp add: db0_def alice_def bob_def root_def)
  have r: "role (alice\<lparr>username := ''alicia''\<rparr>) = USER" by (simp add: alice_def)
  show ?thesis
    using h r update_user_role_admin_only [of alice 1 db0 alice "Some ''alicia''" None ADMIN]
    by (simp add: Let_def)
qed

text \<open>
  Claim C8. \<open>delete_user\<close> answers a caller who is not ADMIN with 403, and an ADMIN
  who names their own id with 400 \<open>Cannot delete your own account\<close>; in both cases the
  database, users and shelf items alike, is unchanged. No error raised for an ADMIN
  carries the status 403, and a deletion that succeeds was asked by an ADMIN for
  another user's id.
\<close>

theorem delete_user_gates:
  "(role cu \<noteq> ADMIN \<longrightarrow>
      delete_user target d cu
        = (Inl (HTTPException 403 ''Only administrators can delete users''), d))
   \<and> (role cu = ADMIN \<and> uid cu = target \<longrightarrow>
        delete_user target d cu
          = (Inl (HTTPException 400 ''Cannot delete your own account''), d))
   \<and> (role cu = ADMIN \<longrightarrow>
        (\<forall>ex. fst (delete_user target d cu) = Inl ex \<longrightarrow> status_code ex \<noteq> 403))
   \<and> (\<forall>d'. delete_user target d cu = (Inr (), d') \<longrightarrow> role cu = ADMIN \<and> uid cu \<noteq> target)"
  by (auto simp: delete_user_def split: option.splits if_splits)

text \<open>The theorem at work: Alice tries to delete Bob, and the administrator themself.\<close>

theorem delete_user_gates_witness:
  "role alice \<noteq> ADMIN
   \<and> delete_user 2 db0 alice
       = (Inl (HTTPException 403 ''Only administrators can delete users''), db0)
   \<and> role root = ADMIN \<and> uid root = 3
   \<and> delete_user 3 db0 root = (Inl (HTTPException 400 ''Cannot delete your own account''), db0)"
proof -
  have a: "role alice \<noteq> ADMIN" by (simp add: alice_def)
  have r: "role root = ADMIN \<and> uid root = 3" by (simp add: root_def)
  have 1: "delete_user 2 db0 alice
       = (Inl (HTTPException 403 ''Only administrators can delete users''), db0)"
    using delete_user_gates [of alice 2 db0] a by blast
  have 2: "delete_user 3 db0 root
       = (Inl (HTTPException 400 ''Cannot delete your own account''), db0)"
    using delete_user_gates [of root 3 db0] r by blast
  show ?thesis using a r 1 2 by blast
qed

text \<open>
  Claim C9. \<open>get_current_user\<close> raises the one \<open>credentials_exception\<close> (401
  \<open>Could not validate credentials\<close>) whenever the token does not decode (bad
  signature, malformed payload, expiry in the past), the payload has no subject, the
  subject is not an integer, or no stored user has the subject's id; and it never
  raises anything else.
\<close>

theorem get_current_user_uniform_rejection:
  "(jwt_decode e token = None
      \<or> (\<exists>payload. jwt_decode e token = Some payload \<and>
            (dict_get payload ''sub'' JNull = JNull
             \<or> py_int e (dict_get payload ''sub'' JNull) = None
             \<or> (\<exists>n. py_int e (dict_get payload ''sub'' JNull) = Some n
                    \<and> find (\<lambda>u. uid u = n) (users d) = None)))
    \<longrightarrow> get_current_user e token d = Inl credentials_exception)
   \<and> (\<forall>ex. get_current_user e token d = Inl ex \<longrightarrow> ex = credentials_exception)"
  by (auto simp: get_current_user_def Let_def split: option.splits)

text \<open>
  The theorem at work: a token that does not decode, one without a subject, one whose
  subject is a word, and one whose subject is the id of no user.
\<close>

theorem get_current_user_uniform_rejection_witness:
  "get_current_user env0 ''forged'' db0 = Inl credentials_exception
   \<and> get_current_user env0 ''nosub'' db0 = Inl credentials_exception
   \<and> get_current_user env0 ''wordsub'' db0 = Inl credentials_exception
   \<and> get_current_user env0 ''ghost'' db0 = Inl credentials_exception"
proof -
  have 1: "jwt_decode env0 ''forged'' = None"
    by (simp add: env0_def decode0_def)
  have 2: "jwt_decode env0 ''nosub'' = Some [(''username'', JStr ''alice'')]
           \<and> dict_get [(''username'', JStr ''alice'')] ''sub'' JNull = JNull"
    by (simp add: env0_def decode0_def dict_get_def)
  have 3: "jwt_decode env0 ''wordsub'' = Some [(''sub'', JStr ''one'')]
           \<and> py_int env0 (dict_get [(''sub'', JStr ''one'')] ''sub'' JNull) = None"
    by (simp add: env0_def decode0_def dict_get_def int0_def digit_string_def)
  have 4: "jwt_decode env0 ''ghost'' = Some [(''sub'', JStr ''99'')]
           \<and> py_int env0 (dict_get [(''sub'', JStr ''99'')] ''sub'' JNull) = Some 99
           \<and> find (\<lambda>u. uid u = 99) (users db0) = None"
    by (simp add: env0_def decode0_def dict_get_def int0_def digit_string_def decimal_def
        db0_def alice_def bob_def root_def)
  show ?thesis
    using get_current_user_uniform_rejection [of env0 "''forged''" db0]
      get_current_user_uniform_rejection [of env0 "''nosub''" db0]
      get_current_user_uniform_rejection [of env0 "''wordsub''" db0]
      get_current_user_uniform_rejection [of env0 "''ghost''" db0] 1 2 3 4
    by blast
qed

text \<open>
  Claim C10. In \<open>get_user\<close> and \<open>update_user\<close> the authorization check comes before
  the lookup: for a caller who is neither ADMIN nor the target, both end in 403
  \<open>Not authorized\<close> with the database unchanged, and the outcome is the same in any two
  databases, so it tells nothing about whether the target exists.
\<close>

theorem user_authorization_precedes_lookup:
  "role cu \<noteq> ADMIN \<and> uid cu \<noteq> target \<longrightarrow>
     get_user target d cu = Inl (HTTPException 403 ''Not authorized'')
     \<and> update_user target upd d cu = (Inl (HTTPException 403 ''Not authorized''), d)
     \<and> get_user target d cu = get_user target d' cu
     \<and> fst (update_user target upd d cu) = fst (update_user target upd d' cu)"
  by (simp add: get_user_def update_user_def)

text \<open>
  The theorem at work: Alice asks for user 2, who exists in one database and not in the
  other.
\<close>

theorem user_authorization_precedes_lookup_witness:
  "role alice \<noteq> ADMIN \<and> uid alice \<noteq> 2
   \<and> find (\<lambda>u. uid u = 2) (users db0) = Some bob
   \<and> find (\<lambda>u. uid u = 2) (users (db0\<lparr>users := [alice]\<rparr>)) = None
   \<and> get_user 2 db0 alice = Inl (HTTPException 403 ''Not authorized'')
   \<and> get_user 2 (db0\<lparr>users := [alice]\<rparr>) alice = get_user 2 db0 alice
   \<and> fst (update_user 2 \<lparr>upd_username = Some ''eve'', upd_email = None, upd_role = None\<rparr>
             (db0\<lparr>users := [alice]\<rparr>) alice)
       = fst (update_user 2 \<lparr>upd_username = Some ''eve'', upd_email = None, upd_role = None\<rparr>
             db0 alice)"
proof -
  have h: "role alice \<noteq> ADMIN \<and> uid alice \<noteq> 2" by (simp add: alice_def)
  have f: "find (\<lambda>u. uid u = 2) (users db0) = Some bob
     \<and> find (\<lambda>u. uid u = 2) (users (db0\<lparr>users := [alice]\<rparr>)) = None"
    by (simp add: db0_def alice_def bob_def)
  show ?thesis
    using h f
      user_authorization_precedes_lookup [of alice 2 db0
        "\<lparr>upd_username = Some ''eve'', upd_email = None, upd_role = None\<rparr>"
        "db0\<lparr>users := [alice]\<rparr>"]
      user_authorization_precedes_lookup [of alice 2 "db0\<lparr>users := [alice]\<rparr>"
        "\<lparr>upd_username = Some ''eve'', upd_email = None, upd_role = None\<rparr>" db0]
    by simp
qed

end
